theory Spec2Isabelle
  imports Main "HOL-Library.AList"
begin

section \<open>Go values: errors, panics, formatted messages\<close>

text \<open>
  The program is \<^verbatim>\<open>src/main.go\<close>. A Go string is a sequence of bytes, here a
  \<^typ>\<open>string\<close> (a list of 8-bit characters). A Go \<^verbatim>\<open>int\<close> is 64 bits wide on the
  platforms the action runs on; it is an \<^typ>\<open>int\<close> here, and the one place where the
  width shows (\<^verbatim>\<open>strconv.Atoi\<close> clamping at the range's ends) has the bounds
  written out.

  An \<^verbatim>\<open>error\<close> value is kept symbolically: \<^verbatim>\<open>fmt.Errorf(format, args...)\<close>
  is the constructor \<open>Errorf\<close> applied to the format and the arguments, so that the
  context a caller wraps around an error stays visible. \<open>NumError\<close> is
  \<^verbatim>\<open>*strconv.NumError\<close> (function, input, cause) and \<open>ClientError\<close> is whatever the
  tracker client reports. A \<^verbatim>\<open>nil\<close> error is \<open>None\<close>.
\<close>

datatype numerr = ErrSyntax | ErrRange

datatype error =
    Errorf string "arg list"
  | NumError string string numerr
  | ClientError string
and arg = ArgInt int | ArgStr string | ArgErr error

text \<open>
  A function either returns or panics. The two run-time panics of the program are an index
  out of range and a nil pointer dereference.
\<close>

datatype panic = IndexOutOfRange | NilPointerDereference

datatype 'a outcome = Return 'a | Panic panic

section \<open>Library functions the program calls\<close>

subsection \<open>Bytes\<close>

definition byte :: "char \<Rightarrow> nat" where
  "byte c = of_char c"

definition isDigit :: "char \<Rightarrow> bool" where
  "isDigit c = (48 \<le> byte c \<and> byte c \<le> 57)"

definition digitVal :: "char \<Rightarrow> nat" where
  "digitVal c = byte c - 48"

subsection \<open>\<^verbatim>\<open>strings.Split\<close>\<close>

text \<open>
  \<^verbatim>\<open>strings.Split(s, sep)\<close> for a separator of one byte, which is what both call sites
  pass (\<^verbatim>\<open>" "\<close> and \<^verbatim>\<open>"/"\<close>): a string with \<open>n\<close> separators gives \<open>n + 1\<close> pieces,
  empty pieces included, and the empty string gives one empty piece. The first branch of
  the \<open>case\<close> is never taken (the result is never empty).
\<close>

fun Split :: "string \<Rightarrow> char \<Rightarrow> string list" where
  "Split [] sep = [[]]"
| "Split (c # cs) sep =
     (if c = sep then [] # Split cs sep
      else (case Split cs sep of [] \<Rightarrow> [[c]] | t # ts \<Rightarrow> (c # t) # ts))"

subsection \<open>\<^verbatim>\<open>strconv.Atoi\<close>\<close>

text \<open>
  \<^verbatim>\<open>strconv.Atoi\<close> returns a value and an error. The program ignores the error at one
  call site and uses the value, so the value returned beside an error is modelled too:
  0 beside a syntax error, the nearest bound of the 64-bit range beside a range error.

  \<open>Atoi_fast\<close> is the fast path for inputs of 1 to 18 bytes, \<open>ParseInt\<close> the slow path
  (\<^verbatim>\<open>ParseInt(s, 10, 0)\<close>) with \<open>ParseUint_loop\<close> the digit loop of \<^verbatim>\<open>ParseUint\<close>
  for base 10: a byte that is no digit is a syntax error, unless the digits before it
  already overflowed.
\<close>

definition maxUint64 :: nat where
  "maxUint64 = 18446744073709551615"

definition maxInt64 :: int where
  "maxInt64 = 9223372036854775807"

definition minInt64 :: int where
  "minInt64 = - 9223372036854775808"

fun Atoi_fast_loop :: "string \<Rightarrow> int \<Rightarrow> int option" where
  "Atoi_fast_loop [] n = Some n"
| "Atoi_fast_loop (ch # cs) n =
     (if isDigit ch then Atoi_fast_loop cs (n * 10 + int (digitVal ch)) else None)"

definition firstIs :: "string \<Rightarrow> char \<Rightarrow> bool" where
  "firstIs s c = (case s of [] \<Rightarrow> False | x # _ \<Rightarrow> x = c)"

definition dropSign :: "string \<Rightarrow> string" where
  "dropSign s = (if firstIs s (CHR ''-'') \<or> firstIs s (CHR ''+'') then drop 1 s else s)"

definition Atoi_fast :: "string \<Rightarrow> int \<times> error option" where
  "Atoi_fast s0 =
     (let s = dropSign s0 in
      if s = [] then (0, Some (NumError ''Atoi'' s0 ErrSyntax))
      else (case Atoi_fast_loop s 0 of
              None \<Rightarrow> (0, Some (NumError ''Atoi'' s0 ErrSyntax))
            | Some n \<Rightarrow> (if firstIs s0 (CHR ''-'') then - n else n, None)))"

fun ParseUint_loop :: "string \<Rightarrow> nat \<Rightarrow> nat \<times> numerr option" where
  "ParseUint_loop [] n = (n, None)"
| "ParseUint_loop (c # cs) n =
     (if \<not> isDigit c then (0, Some ErrSyntax)
      else if n \<ge> maxUint64 div 10 + 1 then (maxUint64, Some ErrRange)
      else if n * 10 + digitVal c > maxUint64 then (maxUint64, Some ErrRange)
      else ParseUint_loop cs (n * 10 + digitVal c))"

definition ParseUint :: "string \<Rightarrow> nat \<times> numerr option" where
  "ParseUint s = (if s = [] then (0, Some ErrSyntax) else ParseUint_loop s 0)"

definition ParseInt :: "string \<Rightarrow> int \<times> error option" where
  "ParseInt s0 =
     (if s0 = [] then (0, Some (NumError ''Atoi'' s0 ErrSyntax))
      else
        let neg = firstIs s0 (CHR ''-'');
            (un, err) = ParseUint (dropSign s0)
        in if err = Some ErrSyntax then (0, Some (NumError ''Atoi'' s0 ErrSyntax))
           else if \<not> neg \<and> int un \<ge> maxInt64 + 1
             then (maxInt64, Some (NumError ''Atoi'' s0 ErrRange))
           else if neg \<and> int un > maxInt64 + 1
             then (minInt64, Some (NumError ''Atoi'' s0 ErrRange))
           else (if neg then - int un else int un, None))"

definition Atoi :: "string \<Rightarrow> int \<times> error option" where
  "Atoi s = (if 0 < length s \<and> length s < 19 then Atoi_fast s else ParseInt s)"

subsection \<open>\<^verbatim>\<open>regexp\<close>: the fragment of the syntax the program's patterns use\<close>

text \<open>
  The program compiles three patterns and asks \<^verbatim>\<open>MatchString\<close> of each, which reports
  whether the pattern matches \<^emph>\<open>somewhere\<close> in the text. The patterns use literal bytes,
  the classes \<^verbatim>\<open>[0-9]\<close>, \<^verbatim>\<open>[fF]\<close>, \<^verbatim>\<open>[cC]\<close>, \<^verbatim>\<open>[rR]\<close>, the repetition \<^verbatim>\<open>+\<close> of a
  class, optional groups \<^verbatim>\<open>(..)?\<close>, concatenation, the alternation \<^verbatim>\<open>|\<close> (which binds
  weaker than concatenation) and the anchors \<^verbatim>\<open>^\<close> and \<^verbatim>\<open>$\<close> (begin and end of the text:
  no pattern sets the multi-line flag).

  A position is the rest of the text still to read and a flag saying whether it is the
  begin of the text. \<open>rmatch r p\<close> lists the positions at which a match of \<open>r\<close> that
  starts at \<open>p\<close> can end.
\<close>

datatype cls = Digit | OneOf "char list"

fun in_cls :: "cls \<Rightarrow> char \<Rightarrow> bool" where
  "in_cls Digit c = isDigit c"
| "in_cls (OneOf cs) c = (c \<in> set cs)"

datatype regex =
    Eps
  | Chr char
  | In cls
  | PlusIn cls
  | Seq regex regex
  | Alt regex regex
  | Opt regex
  | Bol
  | Eol

type_synonym pos = "bool \<times> string"

fun plus_in :: "cls \<Rightarrow> string \<Rightarrow> pos list" where
  "plus_in k [] = []"
| "plus_in k (x # xs) = (if in_cls k x then (False, xs) # plus_in k xs else [])"

primrec rmatch :: "regex \<Rightarrow> pos \<Rightarrow> pos list" where
  "rmatch Eps = (\<lambda>p. [p])"
| "rmatch (Chr c) =
     (\<lambda>p. case snd p of [] \<Rightarrow> [] | x # xs \<Rightarrow> if x = c then [(False, xs)] else [])"
| "rmatch (In k) =
     (\<lambda>p. case snd p of [] \<Rightarrow> [] | x # xs \<Rightarrow> if in_cls k x then [(False, xs)] else [])"
| "rmatch (PlusIn k) = (\<lambda>p. plus_in k (snd p))"
| "rmatch (Seq r1 r2) = (\<lambda>p. concat (map (rmatch r2) (rmatch r1 p)))"
| "rmatch (Alt r1 r2) = (\<lambda>p. rmatch r1 p @ rmatch r2 p)"
| "rmatch (Opt r) = (\<lambda>p. rmatch r p @ [p])"
| "rmatch Bol = (\<lambda>p. if fst p then [p] else [])"
| "rmatch Eol = (\<lambda>p. if snd p = [] then [p] else [])"

fun search :: "regex \<Rightarrow> bool \<Rightarrow> string \<Rightarrow> bool" where
  "search r b [] = (rmatch r (b, []) \<noteq> [])"
| "search r b (c # cs) = (rmatch r (b, c # cs) \<noteq> [] \<or> search r False cs)"

definition MatchString :: "regex \<Rightarrow> string \<Rightarrow> bool" where
  "MatchString r s = search r True s"

fun Str :: "string \<Rightarrow> regex" where
  "Str [] = Eps"
| "Str (c # cs) = Seq (Chr c) (Str cs)"

fun Cat :: "regex list \<Rightarrow> regex" where
  "Cat [] = Eps"
| "Cat (r # rs) = Seq r (Cat rs)"

text \<open>
  The pattern of \<^verbatim>\<open>getMilestoneId\<close>: \<^verbatim>\<open>v[0-9]\.[0-9]+\.[0-9]\<close>. It has no anchor,
  and the major version is one digit.
\<close>

definition version_re :: regex where
  "version_re =
     Cat [Chr (CHR ''v''), In Digit, Chr (CHR ''.''), PlusIn Digit, Chr (CHR ''.''), In Digit]"

text \<open>
  The patterns of \<^verbatim>\<open>getLinkedIssue\<close>:
  \<^verbatim>\<open>^[fF]ix(e)?(s)?(d)?$|[cC]lose(s)?(d)?$|[rR]esolve(s)?(d)?$\<close> and \<^verbatim>\<open>^#[0-9]+\<close>.
  The first has three alternatives, and its \<^verbatim>\<open>^\<close> belongs to the first of them only.
\<close>

definition fix_alt :: regex where
  "fix_alt =
     Cat [Bol, In (OneOf ''fF''), Str ''ix'',
          Opt (Chr (CHR ''e'')), Opt (Chr (CHR ''s'')), Opt (Chr (CHR ''d'')), Eol]"

definition close_alt :: regex where
  "close_alt =
     Cat [In (OneOf ''cC''), Str ''lose'', Opt (Chr (CHR ''s'')), Opt (Chr (CHR ''d'')), Eol]"

definition resolve_alt :: regex where
  "resolve_alt =
     Cat [In (OneOf ''rR''), Str ''esolve'', Opt (Chr (CHR ''s'')), Opt (Chr (CHR ''d'')), Eol]"

definition keywords_re :: regex where
  "keywords_re = Alt (Alt fix_alt close_alt) resolve_alt"

definition issue_re :: regex where
  "issue_re = Cat [Bol, Chr (CHR ''#''), PlusIn Digit]"

subsection \<open>\<^verbatim>\<open>strings.EqualFold\<close>\<close>

text \<open>
  \<^verbatim>\<open>strings.EqualFold(s, t)\<close> compares the UTF-8 texts \<open>s\<close> and \<open>t\<close> under simple
  Unicode case folding. Both call sites pass the literal \<^verbatim>\<open>"closed"\<close> for \<open>t\<close>, so
  the model is for a second argument of ASCII bytes. \<open>foldRune t s\<close> reads one
  character of \<open>s\<close> that folds to the ASCII byte \<open>t\<close> and gives the rest of \<open>s\<close>: the byte
  itself, its other ASCII case, and for the two letters whose folding orbit leaves ASCII
  the third member (U+017F, long s, the bytes C5 BF, folds to \<open>s\<close>; U+212A, the Kelvin
  sign, the bytes E2 84 AA, folds to \<open>k\<close>).
\<close>

definition isUpper :: "char \<Rightarrow> bool" where
  "isUpper c = (65 \<le> byte c \<and> byte c \<le> 90)"

definition asciiFoldEq :: "char \<Rightarrow> char \<Rightarrow> bool" where
  "asciiFoldEq a b =
     (a = b \<or> (isUpper a \<and> byte b = byte a + 32) \<or> (isUpper b \<and> byte a = byte b + 32))"

definition foldRune :: "char \<Rightarrow> string \<Rightarrow> string option" where
  "foldRune t s =
     (case s of
        [] \<Rightarrow> None
      | c # cs \<Rightarrow>
          if byte c < 128 then (if asciiFoldEq c t then Some cs else None)
          else if (t = CHR ''s'' \<or> t = CHR ''S'') \<and> take 2 s = [CHR 0xC5, CHR 0xBF]
            then Some (drop 2 s)
          else if (t = CHR ''k'' \<or> t = CHR ''K'') \<and> take 3 s = [CHR 0xE2, CHR 0x84, CHR 0xAA]
            then Some (drop 3 s)
          else None)"

primrec EqualFold_rev :: "string \<Rightarrow> string \<Rightarrow> bool" where
  "EqualFold_rev [] s = (s = [])"
| "EqualFold_rev (t # ts) s =
     (case foldRune t s of None \<Rightarrow> False | Some rest \<Rightarrow> EqualFold_rev ts rest)"

definition EqualFold :: "string \<Rightarrow> string \<Rightarrow> bool" where
  "EqualFold s t = EqualFold_rev t s"

subsection \<open>\<^verbatim>\<open>golang.org/x/mod/semver\<close>\<close>

text \<open>
  The package accepts versions of the form \<^verbatim>\<open>vMAJOR[.MINOR[.PATCH[-PRERELEASE][+BUILD]]]\<close>:
  the leading \<^verbatim>\<open>v\<close> is required. \<open>parse\<close> gives the parts of a valid version and \<open>None\<close>
  for an invalid one. \<^verbatim>\<open>Compare\<close> puts an invalid version below every valid one and
  makes two invalid versions equal; valid versions compare by major, minor, patch and
  pre-release, the build suffix being ignored. \<^verbatim>\<open>Sort\<close> orders by \<^verbatim>\<open>Compare\<close> and,
  where that gives 0, by the byte order of the strings.
\<close>

fun str_less :: "string \<Rightarrow> string \<Rightarrow> bool" where
  "str_less [] [] = False"
| "str_less [] (y # ys) = True"
| "str_less (x # xs) [] = False"
| "str_less (x # xs) (y # ys) = (byte x < byte y \<or> (x = y \<and> str_less xs ys))"

definition parseInt :: "string \<Rightarrow> (string \<times> string) option" where
  "parseInt v =
     (case v of
        [] \<Rightarrow> None
      | c # _ \<Rightarrow>
          if \<not> isDigit c then None
          else if c = CHR ''0'' \<and> length (takeWhile isDigit v) \<noteq> 1 then None
          else Some (takeWhile isDigit v, dropWhile isDigit v))"

definition isIdentChar :: "char \<Rightarrow> bool" where
  "isIdentChar c =
     ((65 \<le> byte c \<and> byte c \<le> 90) \<or> (97 \<le> byte c \<and> byte c \<le> 122) \<or> isDigit c
      \<or> c = CHR ''-'')"

definition isNum :: "string \<Rightarrow> bool" where
  "isNum v = list_all isDigit v"

definition isBadNum :: "string \<Rightarrow> bool" where
  "isBadNum v = (isNum v \<and> length v > 1 \<and> firstIs v (CHR ''0''))"

definition parsePrerelease :: "string \<Rightarrow> (string \<times> string) option" where
  "parsePrerelease v =
     (if \<not> firstIs v (CHR ''-'') then None
      else
        let body = takeWhile (\<lambda>c. c \<noteq> CHR ''+'') (drop 1 v);
            rest = dropWhile (\<lambda>c. c \<noteq> CHR ''+'') (drop 1 v)
        in if list_all (\<lambda>c. isIdentChar c \<or> c = CHR ''.'') body
              \<and> list_all (\<lambda>i. i \<noteq> [] \<and> \<not> isBadNum i) (Split body (CHR ''.''))
           then Some (CHR ''-'' # body, rest) else None)"

definition parseBuild :: "string \<Rightarrow> (string \<times> string) option" where
  "parseBuild v =
     (if \<not> firstIs v (CHR ''+'') then None
      else if list_all (\<lambda>c. isIdentChar c \<or> c = CHR ''.'') (drop 1 v)
              \<and> list_all (\<lambda>i. i \<noteq> []) (Split (drop 1 v) (CHR ''.''))
      then Some (v, []) else None)"

record parsed =
  major :: string
  minor :: string
  patch :: string
  prerelease :: string
  build :: string

definition parseTail :: "string \<Rightarrow> string \<Rightarrow> string \<Rightarrow> string \<Rightarrow> parsed option" where
  "parseTail ma mi pa v =
     (case (if firstIs v (CHR ''-'') then parsePrerelease v else Some ([], v)) of
        None \<Rightarrow> None
      | Some (pre, v1) \<Rightarrow>
          (case (if firstIs v1 (CHR ''+'') then parseBuild v1 else Some ([], v1)) of
             None \<Rightarrow> None
           | Some (bld, v2) \<Rightarrow>
               if v2 \<noteq> [] then None
               else Some \<lparr>major = ma, minor = mi, patch = pa, prerelease = pre, build = bld\<rparr>))"

definition parse :: "string \<Rightarrow> parsed option" where
  "parse v =
     (if \<not> firstIs v (CHR ''v'') then None
      else case parseInt (drop 1 v) of
        None \<Rightarrow> None
      | Some (ma, v1) \<Rightarrow>
          if v1 = [] then
            Some \<lparr>major = ma, minor = ''0'', patch = ''0'', prerelease = [], build = []\<rparr>
          else if \<not> firstIs v1 (CHR ''.'') then None
          else case parseInt (drop 1 v1) of
            None \<Rightarrow> None
          | Some (mi, v2) \<Rightarrow>
              if v2 = [] then
                Some \<lparr>major = ma, minor = mi, patch = ''0'', prerelease = [], build = []\<rparr>
              else if \<not> firstIs v2 (CHR ''.'') then None
              else case parseInt (drop 1 v2) of
                None \<Rightarrow> None
              | Some (pa, v3) \<Rightarrow> parseTail ma mi pa v3)"

definition compareInt :: "string \<Rightarrow> string \<Rightarrow> int" where
  "compareInt x y =
     (if x = y then 0
      else if length x < length y then - 1
      else if length x > length y then 1
      else if str_less x y then - 1 else 1)"

fun compareIdents :: "string list \<Rightarrow> string list \<Rightarrow> int" where
  "compareIdents [] ys = - 1"
| "compareIdents (dx # xs) [] = 1"
| "compareIdents (dx # xs) (dy # ys) =
     (if dx \<noteq> dy then
        (if isNum dx \<noteq> isNum dy then (if isNum dx then - 1 else 1)
         else if isNum dx \<and> length dx < length dy then - 1
         else if isNum dx \<and> length dx > length dy then 1
         else if str_less dx dy then - 1 else 1)
      else compareIdents xs ys)"

definition comparePrerelease :: "string \<Rightarrow> string \<Rightarrow> int" where
  "comparePrerelease x y =
     (if x = y then 0
      else if x = [] then 1
      else if y = [] then - 1
      else compareIdents (Split (drop 1 x) (CHR ''.'')) (Split (drop 1 y) (CHR ''.'')))"

definition Compare :: "string \<Rightarrow> string \<Rightarrow> int" where
  "Compare v w =
     (case (parse v, parse w) of
        (None, None) \<Rightarrow> 0
      | (None, Some pw) \<Rightarrow> - 1
      | (Some pv, None) \<Rightarrow> 1
      | (Some pv, Some pw) \<Rightarrow>
          if compareInt (major pv) (major pw) \<noteq> 0 then compareInt (major pv) (major pw)
          else if compareInt (minor pv) (minor pw) \<noteq> 0 then compareInt (minor pv) (minor pw)
          else if compareInt (patch pv) (patch pw) \<noteq> 0 then compareInt (patch pv) (patch pw)
          else comparePrerelease (prerelease pv) (prerelease pw))"

definition ByVersion_Less :: "string \<Rightarrow> string \<Rightarrow> bool" where
  "ByVersion_Less a b = (if Compare a b \<noteq> 0 then Compare a b < 0 else str_less a b)"

text \<open>
  \<^verbatim>\<open>semver.Sort\<close> sorts in place by \<open>ByVersion_Less\<close>; the model sorts by insertion.
\<close>

fun insert_version :: "string \<Rightarrow> string list \<Rightarrow> string list" where
  "insert_version a [] = [a]"
| "insert_version a (b # bs) =
     (if ByVersion_Less b a then b # insert_version a bs else a # b # bs)"

definition Sort :: "string list \<Rightarrow> string list" where
  "Sort vs = foldr insert_version vs []"

section \<open>The tracker client\<close>

text \<open>
  The types of \<^verbatim>\<open>go-github\<close> that the program reads. Their fields are pointers, which
  the program dereferences with \<^verbatim>\<open>*\<close>; a pointer is an \<open>option\<close> here and dereferencing
  \<open>None\<close> panics. The elements of the milestone list are taken to be non-nil.
\<close>

record Milestone =
  Title :: "string option"
  Number :: "int option"
  State :: "string option"

record Issue =
  Body :: "string option"
  State :: "string option"
  Milestone :: "Milestone option"

record GitHubIssue =
  Owner :: string
  Repo :: string
  Id :: int

text \<open>
  The client is the program's collaborator: three calls, each of which may change the
  tracker (the world \<open>'w\<close>) and may fail. \<^verbatim>\<open>ListMilestones\<close> and \<^verbatim>\<open>Get\<close> return a
  result and an error, \<^verbatim>\<open>Edit\<close> is called with the number of the milestone to set and
  only its error is read. The program's state is the world, the calls made so far and the
  lines logged so far.
\<close>

record 'w Client =
  ListMilestones :: "string \<Rightarrow> string \<Rightarrow> 'w \<Rightarrow> (Milestone list \<times> error option) \<times> 'w"
  Get :: "string \<Rightarrow> string \<Rightarrow> int \<Rightarrow> 'w \<Rightarrow> (Issue option \<times> error option) \<times> 'w"
  Edit :: "string \<Rightarrow> string \<Rightarrow> int \<Rightarrow> int \<Rightarrow> 'w \<Rightarrow> error option \<times> 'w"

datatype call =
    ListMilestonesCall string string
  | GetCall string string int
  | EditCall string string int int

record 'w state =
  world :: 'w
  calls :: "call list"
  logs :: "(string \<times> arg list) list"

definition logPrintf :: "string \<Rightarrow> arg list \<Rightarrow> 'w state \<Rightarrow> 'w state" where
  "logPrintf format args st = st\<lparr>logs := logs st @ [(format, args)]\<rparr>"

definition callListMilestones ::
  "'w Client \<Rightarrow> string \<Rightarrow> string \<Rightarrow> 'w state \<Rightarrow> (Milestone list \<times> error option) \<times> 'w state"
where
  "callListMilestones client owner repo st =
     (fst (ListMilestones client owner repo (world st)),
      st\<lparr>world := snd (ListMilestones client owner repo (world st)),
         calls := calls st @ [ListMilestonesCall owner repo]\<rparr>)"

definition callGet ::
  "'w Client \<Rightarrow> string \<Rightarrow> string \<Rightarrow> int \<Rightarrow> 'w state \<Rightarrow> (Issue option \<times> error option) \<times> 'w state"
where
  "callGet client owner repo n st =
     (fst (Get client owner repo n (world st)),
      st\<lparr>world := snd (Get client owner repo n (world st)),
         calls := calls st @ [GetCall owner repo n]\<rparr>)"

definition callEdit ::
  "'w Client \<Rightarrow> string \<Rightarrow> string \<Rightarrow> int \<Rightarrow> int \<Rightarrow> 'w state \<Rightarrow> error option \<times> 'w state"
where
  "callEdit client owner repo n milestoneId st =
     (fst (Edit client owner repo n milestoneId (world st)),
      st\<lparr>world := snd (Edit client owner repo n milestoneId (world st)),
         calls := calls st @ [EditCall owner repo n milestoneId]\<rparr>)"

section \<open>The program\<close>

subsection \<open>\<^verbatim>\<open>getMilestoneId\<close>\<close>

text \<open>
  The loop over the listed milestones fills the map \<^verbatim>\<open>milestones\<close> from the title
  without its first byte to the milestone's number; a later milestone with the same key
  overwrites an earlier one. The map is an association list with one entry per key.
\<close>

fun collectMilestones :: "Milestone list \<Rightarrow> (string \<times> int) list \<Rightarrow> (string \<times> int) list outcome" where
  "collectMilestones [] milestones = Return milestones"
| "collectMilestones (m # ms) milestones =
     (case Title m of
        None \<Rightarrow> Panic NilPointerDereference
      | Some title \<Rightarrow>
          if MatchString version_re title then
            (case Milestone.State m of
               None \<Rightarrow> Panic NilPointerDereference
             | Some st \<Rightarrow>
                 if \<not> EqualFold st ''closed'' then
                   (case Number m of
                      None \<Rightarrow> Panic NilPointerDereference
                    | Some n \<Rightarrow> collectMilestones ms (AList.update (drop 1 title) n milestones))
                 else collectMilestones ms milestones)
          else collectMilestones ms milestones)"

text \<open>
  The keys are appended to \<^verbatim>\<open>versions\<close> in the map's iteration order, which Go leaves
  open, and sorted; the model takes them in the order of the association list. For keys
  that are no versions for \<^verbatim>\<open>semver\<close> the order they are taken in does not change
  \<^verbatim>\<open>versions[0]\<close> (lemma \<open>Sort_head_least\<close> below). A key the map does not hold reads as
  0, Go's zero value.
\<close>

definition getMilestoneId ::
  "'w Client \<Rightarrow> GitHubIssue \<Rightarrow> 'w state \<Rightarrow> (int option \<times> error option) outcome \<times> 'w state"
where
  "getMilestoneId client g st =
     (case callListMilestones client (Owner g) (Repo g) st of
        ((ghMilestones, Some err), st1) \<Rightarrow>
          (Return (None, Some (Errorf ''retrieving list of milestones: %+v'' [ArgErr err])), st1)
      | ((ghMilestones, None), st1) \<Rightarrow>
          (case collectMilestones ghMilestones [] of
             Panic p \<Rightarrow> (Panic p, st1)
           | Return milestones \<Rightarrow>
               if length milestones = 0 then
                 (Return (None, Some (Errorf ''no open version milestones were found'' [])), st1)
               else
                 (case Sort (map fst milestones) of
                    [] \<Rightarrow> (Panic IndexOutOfRange, st1)
                  | v0 # _ \<Rightarrow>
                      (Return (Some (case map_of milestones v0 of None \<Rightarrow> 0 | Some n \<Rightarrow> n), None),
                       logPrintf ''[DEBUG] lowest open version milestone: %s'' [ArgStr v0] st1))))"

subsection \<open>\<^verbatim>\<open>getLinkedIssue\<close>\<close>

text \<open>
  The loop over the pieces of the body: at a piece that matches the keyword pattern the
  next piece is read without a bounds check, so a keyword in the last piece panics.
  The error of \<^verbatim>\<open>strconv.Atoi\<close> is dropped and its value returned.
\<close>

fun scanBody :: "string list \<Rightarrow> int option outcome" where
  "scanBody [] = Return None"
| "scanBody (s # rest) =
     (if MatchString keywords_re s then
        (case rest of
           [] \<Rightarrow> Panic IndexOutOfRange
         | next # _ \<Rightarrow>
             if MatchString issue_re next then Return (Some (fst (Atoi (drop 1 next))))
             else scanBody rest)
      else scanBody rest)"

text \<open>
  The error of \<^verbatim>\<open>client.Issues.Get\<close> is dropped; \<^verbatim>\<open>resp.Body\<close> then reads through
  the returned pointer, which panics when it is nil.
\<close>

definition getLinkedIssue ::
  "'w Client \<Rightarrow> GitHubIssue \<Rightarrow> 'w state \<Rightarrow> (int option \<times> error option) outcome \<times> 'w state"
where
  "getLinkedIssue client g st =
     (case callGet client (Owner g) (Repo g) (Id g) st of
        ((None, err), st1) \<Rightarrow> (Panic NilPointerDereference, st1)
      | ((Some resp, err), st1) \<Rightarrow>
          (case (case Body resp of
                   None \<Rightarrow> Return None
                 | Some body \<Rightarrow> scanBody (Split body (CHR '' ''))) of
             Panic p \<Rightarrow> (Panic p, st1)
           | Return (Some n) \<Rightarrow> (Return (Some n, None), st1)
           | Return None \<Rightarrow>
               (Return (None, None),
                logPrintf ''[DEBUG] no special keywords found in issue description'' [] st1)))"

subsection \<open>\<^verbatim>\<open>updateMilestone\<close>\<close>

text \<open>
  \<open>needsMilestone\<close> is the condition of the \<^verbatim>\<open>if\<close>:
  \<^verbatim>\<open>issue.Milestone == nil && strings.EqualFold(*issue.State, "closed")\<close>; the state is
  read only when there is no milestone. When the condition is false the log line reads
  \<^verbatim>\<open>*issue.Milestone.Title\<close>.
\<close>

definition needsMilestone :: "Issue \<Rightarrow> bool outcome" where
  "needsMilestone issue =
     (case Milestone issue of
        Some m \<Rightarrow> Return False
      | None \<Rightarrow>
          (case Issue.State issue of
             None \<Rightarrow> Panic NilPointerDereference
           | Some st \<Rightarrow> Return (EqualFold st ''closed'')))"

definition updateMilestone ::
  "'w Client \<Rightarrow> GitHubIssue \<Rightarrow> int \<Rightarrow> 'w state \<Rightarrow> error option outcome \<times> 'w state"
where
  "updateMilestone client g milestoneId st =
     (case callGet client (Owner g) (Repo g) (Id g) st of
        ((issue, Some err), st1) \<Rightarrow>
          (Return (Some (Errorf ''getting issue #%d: %+v'' [ArgInt (Id g), ArgErr err])), st1)
      | ((None, None), st1) \<Rightarrow> (Panic NilPointerDereference, st1)
      | ((Some issue, None), st1) \<Rightarrow>
          (case needsMilestone issue of
             Panic p \<Rightarrow> (Panic p, st1)
           | Return b \<Rightarrow>
               if b then
                 (case callEdit client (Owner g) (Repo g) (Id g) milestoneId st1 of
                    (Some err, st2) \<Rightarrow>
                      (Return (Some (Errorf ''updating milestone on issue #%d: %+v''
                                       [ArgInt (Id g), ArgErr err])), st2)
                  | (None, st2) \<Rightarrow> (Return None, st2))
               else
                 (case Milestone issue of
                    None \<Rightarrow> (Panic NilPointerDereference, st1)
                  | Some m \<Rightarrow>
                      (case Title m of
                         None \<Rightarrow> (Panic NilPointerDereference, st1)
                       | Some title \<Rightarrow>
                           (Return None,
                            logPrintf ''[DEBUG] github issue #%d already has milestone %s''
                              [ArgInt (Id g), ArgStr title] st1)))))"

subsection \<open>\<^verbatim>\<open>run\<close> and \<^verbatim>\<open>main\<close>\<close>

text \<open>
  \<open>Env\<close> holds what \<^verbatim>\<open>viper.GetString\<close> gives for the three variables (the empty
  string for one that is not set). The client built from the token is the parameter
  \<open>client\<close>. \<open>index\<close> is Go's checked indexing.
\<close>

record Env =
  github_token :: string
  github_repository :: string
  pr_number :: string

definition index :: "'a list \<Rightarrow> nat \<Rightarrow> 'a outcome" where
  "index xs i = (if i < length xs then Return (xs ! i) else Panic IndexOutOfRange)"

definition runWith ::
  "'w Client \<Rightarrow> string \<Rightarrow> string \<Rightarrow> int \<Rightarrow> 'w state \<Rightarrow> error option outcome \<times> 'w state"
where
  "runWith client owner repo prId st =
     (case getMilestoneId client \<lparr>Owner = owner, Repo = repo, Id = prId\<rparr> st of
        (Panic p, st1) \<Rightarrow> (Panic p, st1)
      | (Return (milestoneId, Some err), st1) \<Rightarrow>
          (Return (Some (Errorf ''getting milestone id: %s'' [ArgErr err])), st1)
      | (Return (None, None), st1) \<Rightarrow>
          (Return None, logPrintf ''[DEBUG] no open version milestones exists in github'' [] st1)
      | (Return (Some milestoneId, None), st1) \<Rightarrow>
          (case updateMilestone client \<lparr>Owner = owner, Repo = repo, Id = prId\<rparr> milestoneId st1 of
             (Panic p, st2) \<Rightarrow> (Panic p, st2)
           | (Return (Some err), st2) \<Rightarrow> (Return (Some err), st2)
           | (Return None, st2) \<Rightarrow>
               (case getLinkedIssue client \<lparr>Owner = owner, Repo = repo, Id = prId\<rparr> st2 of
                  (Panic p, st3) \<Rightarrow> (Panic p, st3)
                | (Return (liId, Some err), st3) \<Rightarrow>
                    (Return (Some (Errorf ''getting linked issues for #%d: %+v''
                                     [ArgInt prId, ArgErr err])), st3)
                | (Return (None, None), st3) \<Rightarrow> (Return None, st3)
                | (Return (Some liId, None), st3) \<Rightarrow>
                    updateMilestone client \<lparr>Owner = owner, Repo = repo, Id = liId\<rparr>
                      milestoneId st3)))"

definition run :: "'w Client \<Rightarrow> Env \<Rightarrow> 'w state \<Rightarrow> error option outcome \<times> 'w state" where
  "run client env st =
     (case index (Split (github_repository env) (CHR ''/'')) 0 of
        Panic p \<Rightarrow> (Panic p, st)
      | Return owner \<Rightarrow>
          (case index (Split (github_repository env) (CHR ''/'')) 1 of
             Panic p \<Rightarrow> (Panic p, st)
           | Return repo \<Rightarrow>
               (case Atoi (pr_number env) of
                  (prId, Some err) \<Rightarrow>
                    (Return (Some (Errorf ''parsing pr number: %+v'' [ArgErr err])), st)
                | (prId, None) \<Rightarrow> runWith client owner repo prId st)))"

text \<open>
  \<^verbatim>\<open>main\<close> gives the exit status of the process: 0 when \<^verbatim>\<open>run\<close> returns nil, 1 when
  it returns an error (\<^verbatim>\<open>log.Fatal\<close> prints it and exits with 1), and 2 when it panics
  (the Go run time's status for an unrecovered panic).
\<close>

definition main :: "'w Client \<Rightarrow> Env \<Rightarrow> 'w \<Rightarrow> nat \<times> 'w state" where
  "main client env w =
     (case run client env \<lparr>world = w, calls = [], logs = []\<rparr> of
        (Panic p, st) \<Rightarrow> (2, st)
      | (Return (Some err), st) \<Rightarrow> (1, logPrintf ''%v'' [ArgErr err] st)
      | (Return None, st) \<Rightarrow> (0, st))"

section \<open>Trackers for the scenarios\<close>

text \<open>
  A tracker that stores the milestones and the issues of one repository. \<^verbatim>\<open>Get\<close> of a
  number that is not stored fails; \<^verbatim>\<open>Edit\<close> sets the issue's milestone to the stored
  milestone of the given number.
\<close>

record Tracker =
  milestones :: "Milestone list"
  issues :: "(int \<times> Issue) list"

definition storeGet :: "int \<Rightarrow> Tracker \<Rightarrow> (Issue option \<times> error option) \<times> Tracker" where
  "storeGet n w =
     (case map_of (issues w) n of
        None \<Rightarrow> ((None, Some (ClientError ''404 Not Found'')), w)
      | Some i \<Rightarrow> ((Some i, None), w))"

definition storeEdit :: "int \<Rightarrow> int \<Rightarrow> Tracker \<Rightarrow> error option \<times> Tracker" where
  "storeEdit n milestoneId w =
     (case map_of (issues w) n of
        None \<Rightarrow> (Some (ClientError ''404 Not Found''), w)
      | Some i \<Rightarrow>
          (case find (\<lambda>m. Number m = Some milestoneId) (milestones w) of
             None \<Rightarrow> (Some (ClientError ''422 Validation Failed''), w)
           | Some m \<Rightarrow>
               (None, w\<lparr>issues := AList.update n (i\<lparr>Milestone := Some m\<rparr>) (issues w)\<rparr>)))"

definition storeClient :: "Tracker Client" where
  "storeClient =
     \<lparr>ListMilestones = (\<lambda>owner repo w. ((milestones w, None), w)),
      Get = (\<lambda>owner repo. storeGet),
      Edit = (\<lambda>owner repo. storeEdit)\<rparr>"

text \<open>
  The same tracker behind a connection that answers a given number of \<^verbatim>\<open>Get\<close> calls and
  fails every later one, returning a nil issue beside the error as \<^verbatim>\<open>go-github\<close> does.
\<close>

definition flakyGet :: "int \<Rightarrow> nat \<times> Tracker \<Rightarrow> (Issue option \<times> error option) \<times> (nat \<times> Tracker)" where
  "flakyGet n w =
     (case fst w of
        0 \<Rightarrow> ((None, Some (ClientError ''connection reset'')), w)
      | Suc k \<Rightarrow> (fst (storeGet n (snd w)), (k, snd (storeGet n (snd w)))))"

definition flakyClient :: "(nat \<times> Tracker) Client" where
  "flakyClient =
     \<lparr>ListMilestones = (\<lambda>owner repo w. ((milestones (snd w), None), w)),
      Get = (\<lambda>owner repo. flakyGet),
      Edit = (\<lambda>owner repo n milestoneId w.
               (fst (storeEdit n milestoneId (snd w)), (fst w, snd (storeEdit n milestoneId (snd w)))))\<rparr>"

definition openMilestone :: "string \<Rightarrow> int \<Rightarrow> Milestone" where
  "openMilestone title n = \<lparr>Title = Some title, Number = Some n, Milestone.State = Some ''open''\<rparr>"

definition closedIssue :: "string option \<Rightarrow> Issue" where
  "closedIssue body = \<lparr>Body = body, Issue.State = Some ''closed'', Milestone = None\<rparr>"

definition openIssue :: "string option \<Rightarrow> Issue" where
  "openIssue body = \<lparr>Body = body, Issue.State = Some ''open'', Milestone = None\<rparr>"

definition milestoned :: "Milestone \<Rightarrow> Issue \<Rightarrow> Issue" where
  "milestoned m i = i\<lparr>Milestone := Some m\<rparr>"

definition issueRef :: "int \<Rightarrow> GitHubIssue" where
  "issueRef n = \<lparr>Owner = ''o'', Repo = ''r'', Id = n\<rparr>"

definition mkEnv :: "string \<Rightarrow> string \<Rightarrow> Env" where
  "mkEnv repository pr = \<lparr>github_token = ''token'', github_repository = repository, pr_number = pr\<rparr>"

definition start :: "'w \<Rightarrow> 'w state" where
  "start w = \<lparr>world = w, calls = [], logs = []\<rparr>"

section \<open>Words of the keyword pattern\<close>

text \<open>
  \<open>accepts r p\<close>: some match of \<open>r\<close> starts at \<open>p\<close>. The three lists spell out the
  words of the three alternatives of the keyword pattern, each read from the
  alternative's first byte to its \<^verbatim>\<open>$\<close>.
\<close>

definition accepts :: "regex \<Rightarrow> pos \<Rightarrow> bool" where
  "accepts r p = (rmatch r p \<noteq> [])"

definition fixForms :: "string list" where
  "fixForms =
     [c # ''ix'' @ e @ s @ d.
        c \<leftarrow> ''fF'', e \<leftarrow> ['''', ''e''], s \<leftarrow> ['''', ''s''], d \<leftarrow> ['''', ''d'']]"

definition closeForms :: "string list" where
  "closeForms = [c # ''lose'' @ s @ d. c \<leftarrow> ''cC'', s \<leftarrow> ['''', ''s''], d \<leftarrow> ['''', ''d'']]"

definition resolveForms :: "string list" where
  "resolveForms = [c # ''esolve'' @ s @ d. c \<leftarrow> ''rR'', s \<leftarrow> ['''', ''s''], d \<leftarrow> ['''', ''d'']]"

text \<open>
  The keyword family as the specification words it: fix, fixes, fixed, close, closes,
  closed, resolve, resolves, resolved, each also with a capital first letter.
\<close>

definition specKeywords :: "string list" where
  "specKeywords =
     [''fix'', ''fixes'', ''fixed'', ''close'', ''closes'', ''closed'',
      ''resolve'', ''resolves'', ''resolved'',
      ''Fix'', ''Fixes'', ''Fixed'', ''Close'', ''Closes'', ''Closed'',
      ''Resolve'', ''Resolves'', ''Resolved'']"

lemmas library_defs =
  byte_def isDigit_def digitVal_def firstIs_def dropSign_def Atoi_def Atoi_fast_def
  ParseInt_def ParseUint_def maxUint64_def maxInt64_def minInt64_def MatchString_def
  version_re_def fix_alt_def close_alt_def resolve_alt_def keywords_re_def issue_re_def
  isUpper_def asciiFoldEq_def foldRune_def EqualFold_def parseInt_def parse_def Compare_def
  ByVersion_Less_def Sort_def

lemmas program_defs =
  logPrintf_def callListMilestones_def callGet_def callEdit_def getMilestoneId_def
  getLinkedIssue_def needsMilestone_def updateMilestone_def index_def runWith_def run_def
  main_def

lemmas scenario_defs =
  storeGet_def storeEdit_def storeClient_def flakyGet_def flakyClient_def openMilestone_def
  closedIssue_def openIssue_def milestoned_def issueRef_def mkEnv_def start_def

section \<open>Properties\<close>

subsection \<open>Configuration\<close>

lemma Split_no_sep: "sep \<notin> set s \<Longrightarrow> Split s sep = [s]"
  by (induction s) auto

text \<open>
  C10. \<^verbatim>\<open>run\<close> indexes the pieces of \<^verbatim>\<open>github_repository\<close> split at \<^verbatim>\<open>/\<close> without a
  bounds check: in every environment where the variable holds no \<^verbatim>\<open>/\<close>, \<^verbatim>\<open>run\<close>
  panics with an index out of range, whatever the client and the other variables are,
  and leaves the state as it was (no call was made, nothing was logged); it does not
  return an error.
\<close>

theorem run_without_slash_panics:
  assumes "CHR ''/'' \<notin> set (github_repository env)"
  shows "run client env st = (Panic IndexOutOfRange, st)"
  using assms by (simp add: run_def index_def Split_no_sep)

theorem run_without_slash_panics_witness:
  "CHR ''/'' \<notin> set (github_repository (mkEnv ''ownerrepo'' ''10''))
   \<and> run storeClient (mkEnv ''ownerrepo'' ''10'') (start \<lparr>milestones = [], issues = []\<rparr>)
       = (Panic IndexOutOfRange, start \<lparr>milestones = [], issues = []\<rparr>)"
  using run_without_slash_panics [of "mkEnv ''ownerrepo'' ''10''" storeClient
      "start \<lparr>milestones = [], issues = []\<rparr>"]
  by (simp add: mkEnv_def)

subsection \<open>The keyword pattern\<close>

text \<open>
  How \<open>accepts\<close> goes through a concatenation, one rule per kind of first factor.
\<close>

lemma concat_map_concat:
  "concat (map f (concat xss)) = concat (map (\<lambda>xs. concat (map f xs)) xss)"
  by (induction xss) auto

lemma rmatch_Seq_assoc: "rmatch (Seq (Seq a b) c) p = rmatch (Seq a (Seq b c)) p"
  by (simp add: concat_map_concat comp_def)

lemma accepts_Seq_assoc: "accepts (Seq (Seq a b) c) p = accepts (Seq a (Seq b c)) p"
  unfolding accepts_def by (simp only: rmatch_Seq_assoc)

lemma accepts_Eps: "accepts Eps p"
  by (simp add: accepts_def)

lemma accepts_Seq_Eps: "accepts (Seq Eps r) p = accepts r p"
  by (simp add: accepts_def)

lemma accepts_Seq_Chr:
  "accepts (Seq (Chr c) r) (b, t) = (\<exists>xs. t = c # xs \<and> accepts r (False, xs))"
  by (cases t) (auto simp: accepts_def)

lemma accepts_Seq_In:
  "accepts (Seq (In k) r) (b, t) = (\<exists>x xs. t = x # xs \<and> in_cls k x \<and> accepts r (False, xs))"
  by (cases t) (auto simp: accepts_def)

lemma accepts_Seq_Opt_Chr:
  "accepts (Seq (Opt (Chr c)) r) (b, t) =
     (accepts r (b, t) \<or> (\<exists>xs. t = c # xs \<and> accepts r (False, xs)))"
  by (cases t) (auto simp: accepts_def)

lemma accepts_Seq_Bol: "accepts (Seq Bol r) (b, t) = (b \<and> accepts r (b, t))"
  by (auto simp: accepts_def)

lemma accepts_Seq_Eol: "accepts (Seq Eol r) (b, t) = (t = [] \<and> accepts r (b, t))"
  by (auto simp: accepts_def)

lemma accepts_Alt: "accepts (Alt r1 r2) p = (accepts r1 p \<or> accepts r2 p)"
  by (simp add: accepts_def)

lemmas accepts_simps =
  accepts_Seq_assoc accepts_Eps accepts_Seq_Eps accepts_Seq_Chr accepts_Seq_In
  accepts_Seq_Opt_Chr accepts_Seq_Bol accepts_Seq_Eol accepts_Alt

text \<open>
  A search finds a match that starts at the begin of the text or after a non-empty
  prefix of it; after a prefix the position is no longer the begin.
\<close>

lemma search_accepts:
  "search r b s = (accepts r (b, s) \<or> (\<exists>p x. p \<noteq> [] \<and> s = p @ x \<and> accepts r (False, x)))"
proof (induction s arbitrary: b)
  case Nil
  then show ?case by (simp add: accepts_def)
next
  case (Cons c cs)
  have "(\<exists>p x. p \<noteq> [] \<and> c # cs = p @ x \<and> accepts r (False, x))
      = (accepts r (False, cs) \<or> (\<exists>p x. p \<noteq> [] \<and> cs = p @ x \<and> accepts r (False, x)))"
    (is "?L = ?R")
  proof
    assume ?L
    then obtain p x where px: "p \<noteq> []" "c # cs = p @ x" "accepts r (False, x)" by blast
    then obtain p' where p': "p = c # p'" by (cases p) auto
    with px have "cs = p' @ x" by simp
    with px(3) show ?R by (cases "p' = []") auto
  next
    assume ?R
    then show ?L
    proof
      assume "accepts r (False, cs)"
      then have "[c] \<noteq> [] \<and> c # cs = [c] @ cs \<and> accepts r (False, cs)" by simp
      then show ?L by blast
    next
      assume "\<exists>p x. p \<noteq> [] \<and> cs = p @ x \<and> accepts r (False, x)"
      then obtain p x where "p \<noteq> []" "cs = p @ x" "accepts r (False, x)" by blast
      then have "c # p \<noteq> [] \<and> c # cs = (c # p) @ x \<and> accepts r (False, x)" by simp
      then show ?L by blast
    qed
  qed
  with Cons.IH [of False] show ?case by (simp add: accepts_def)
qed

lemma fix_alt_accepts: "accepts fix_alt (b, t) = (b \<and> t \<in> set fixForms)"
proof
  assume "accepts fix_alt (b, t)"
  then show "b \<and> t \<in> set fixForms"
    apply (simp add: fix_alt_def fixForms_def accepts_simps)
    apply (elim exE conjE disjE)
    apply simp_all
    done
next
  assume "b \<and> t \<in> set fixForms"
  then have b and "t \<in> set fixForms" by simp_all
  then show "accepts fix_alt (b, t)"
    apply (simp add: fixForms_def)
    apply (elim disjE)
    apply (simp_all add: fix_alt_def accepts_simps)
    done
qed

lemma close_alt_accepts: "accepts close_alt (b, t) = (t \<in> set closeForms)"
proof
  assume "accepts close_alt (b, t)"
  then show "t \<in> set closeForms"
    apply (simp add: close_alt_def closeForms_def accepts_simps)
    apply (elim exE conjE disjE)
    apply simp_all
    done
next
  assume "t \<in> set closeForms"
  then show "accepts close_alt (b, t)"
    apply (simp add: closeForms_def)
    apply (elim disjE)
    apply (simp_all add: close_alt_def accepts_simps)
    done
qed

lemma resolve_alt_accepts: "accepts resolve_alt (b, t) = (t \<in> set resolveForms)"
proof
  assume "accepts resolve_alt (b, t)"
  then show "t \<in> set resolveForms"
    apply (simp add: resolve_alt_def resolveForms_def accepts_simps)
    apply (elim exE conjE disjE)
    apply simp_all
    done
next
  assume "t \<in> set resolveForms"
  then show "accepts resolve_alt (b, t)"
    apply (simp add: resolveForms_def)
    apply (elim disjE)
    apply (simp_all add: resolve_alt_def accepts_simps)
    done
qed

text \<open>
  What the keyword pattern matches: a fix form as the whole piece, or any piece that
  ends with a close form or a resolve form.
\<close>

lemma keywords_re_matches:
  "MatchString keywords_re s =
     (s \<in> set fixForms \<or> (\<exists>p x. s = p @ x \<and> x \<in> set (closeForms @ resolveForms)))"
proof -
  have "MatchString keywords_re s =
     (s \<in> set fixForms \<or> s \<in> set closeForms \<or> s \<in> set resolveForms
      \<or> (\<exists>p x. p \<noteq> [] \<and> s = p @ x \<and> (x \<in> set closeForms \<or> x \<in> set resolveForms)))"
    by (simp add: MatchString_def keywords_re_def search_accepts accepts_Alt
        fix_alt_accepts close_alt_accepts resolve_alt_accepts)
  also have "\<dots> = (s \<in> set fixForms \<or> (\<exists>p x. s = p @ x \<and> x \<in> set (closeForms @ resolveForms)))"
    (is "?L = ?R")
  proof
    assume ?L
    then consider "s \<in> set fixForms" | "s \<in> set closeForms \<or> s \<in> set resolveForms"
      | "\<exists>p x. p \<noteq> [] \<and> s = p @ x \<and> (x \<in> set closeForms \<or> x \<in> set resolveForms)"
      by blast
    then show ?R
    proof cases
      case 1
      then show ?thesis by simp
    next
      case 2
      then have "s = [] @ s \<and> s \<in> set (closeForms @ resolveForms)" by simp
      then show ?thesis by blast
    next
      case 3
      then show ?thesis by auto
    qed
  next
    assume ?R
    then show ?L
    proof
      assume "s \<in> set fixForms"
      then show ?L by simp
    next
      assume "\<exists>p x. s = p @ x \<and> x \<in> set (closeForms @ resolveForms)"
      then obtain p x where px: "s = p @ x" "x \<in> set closeForms \<or> x \<in> set resolveForms"
        by auto
      show ?L
      proof (cases "p = []")
        case True
        with px show ?thesis by auto
      next
        case False
        with px show ?thesis by blast
      qed
    qed
  qed
  finally show ?thesis .
qed

text \<open>
  C6, as stated, fails: the piece \<^verbatim>\<open>fixe\<close> is treated as a closing keyword and is
  none of the eighteen words of the claim.
\<close>

theorem fixe_is_keyword:
  "MatchString keywords_re ''fixe'' \<and> ''fixe'' \<notin> set specKeywords"
  by (simp add: keywords_re_matches fixForms_def specKeywords_def)

text \<open>
  C6, amended. Every word of the three alternatives is treated as a closing keyword: fix,
  close or resolve with the first letter in either case, followed by an optional e (after
  fix only), an optional s and an optional d, in this order. The eighteen words of the
  claim are among them. And no piece is treated as a keyword unless it is one of the fix
  forms or ends with one of the close or resolve forms.
\<close>

theorem keyword_forms:
  "(\<forall>t \<in> set (fixForms @ closeForms @ resolveForms). MatchString keywords_re t)
   \<and> set specKeywords \<subseteq> set (fixForms @ closeForms @ resolveForms)
   \<and> (\<forall>s. MatchString keywords_re s \<longrightarrow>
          s \<in> set fixForms \<or> (\<exists>p x. s = p @ x \<and> x \<in> set (closeForms @ resolveForms)))"
proof (intro conjI ballI allI impI)
  fix t
  assume "t \<in> set (fixForms @ closeForms @ resolveForms)"
  then have "t \<in> set fixForms \<or> t = [] @ t \<and> t \<in> set (closeForms @ resolveForms)"
    by auto
  then show "MatchString keywords_re t"
    unfolding keywords_re_matches by blast
next
  show "set specKeywords \<subseteq> set (fixForms @ closeForms @ resolveForms)"
    by (simp add: specKeywords_def fixForms_def closeForms_def resolveForms_def)
next
  fix s
  assume "MatchString keywords_re s"
  then show "s \<in> set fixForms \<or> (\<exists>p x. s = p @ x \<and> x \<in> set (closeForms @ resolveForms))"
    by (simp only: keywords_re_matches)
qed

theorem keyword_forms_witness:
  "''Closes'' \<in> set (fixForms @ closeForms @ resolveForms)
   \<and> MatchString keywords_re ''Closes''
   \<and> (''Closes'' \<in> set fixForms
        \<or> (\<exists>p x. ''Closes'' = p @ x \<and> x \<in> set (closeForms @ resolveForms)))"
proof -
  have m: "''Closes'' \<in> set (fixForms @ closeForms @ resolveForms)"
    by (simp add: closeForms_def)
  from keyword_forms have
    a: "\<forall>t \<in> set (fixForms @ closeForms @ resolveForms). MatchString keywords_re t" and
    c: "\<forall>s. MatchString keywords_re s \<longrightarrow>
          s \<in> set fixForms \<or> (\<exists>p x. s = p @ x \<and> x \<in> set (closeForms @ resolveForms))"
    by blast+
  from a m have k: "MatchString keywords_re ''Closes''" by blast
  with c have "''Closes'' \<in> set fixForms
        \<or> (\<exists>p x. ''Closes'' = p @ x \<and> x \<in> set (closeForms @ resolveForms))"
    by blast
  with m k show ?thesis by blast
qed

subsection \<open>The resolver\<close>

text \<open>
  The byte order of strings is a strict linear order. A key that does not begin with
  \<^verbatim>\<open>v\<close> is no version for \<^verbatim>\<open>semver\<close>, and among such keys \<open>ByVersion_Less\<close> is the byte
  order; the first element of the sorted list is then the least key, in whatever order
  the keys were appended.
\<close>

lemma byte_inj: "byte x = byte y \<Longrightarrow> x = y"
  by (simp add: byte_def)

lemma str_less_irrefl: "\<not> str_less x x"
  by (induction x) auto

lemma str_less_trans: "str_less x y \<Longrightarrow> str_less y z \<Longrightarrow> str_less x z"
proof (induction x y arbitrary: z rule: str_less.induct)
  case (2 y ys)
  then show ?case by (cases z) auto
next
  case (4 x xs y ys)
  then show ?case by (cases z) auto
qed auto

lemma str_less_total: "x \<noteq> y \<Longrightarrow> str_less x y \<or> str_less y x"
proof (induction x y rule: str_less.induct)
  case (4 x xs y ys)
  then show ?case
    using byte_inj [of x y] by (cases "byte x < byte y"; cases "byte y < byte x") auto
qed auto

lemma parse_without_v: "\<not> firstIs v (CHR ''v'') \<Longrightarrow> parse v = None"
  by (simp add: parse_def)

lemma ByVersion_Less_invalid:
  "parse a = None \<Longrightarrow> parse b = None \<Longrightarrow> ByVersion_Less a b = str_less a b"
  by (simp add: ByVersion_Less_def Compare_def)

lemma set_insert_version: "set (insert_version a bs) = insert a (set bs)"
  by (induction bs) auto

lemma set_Sort: "set (Sort vs) = set vs"
  by (induction vs) (auto simp: Sort_def set_insert_version)

lemma hd_insert_version:
  "hd (insert_version a bs) = (if bs \<noteq> [] \<and> ByVersion_Less (hd bs) a then hd bs else a)"
  by (cases bs) auto

lemma Sort_head_least:
  assumes "vs \<noteq> []" and "\<forall>v \<in> set vs. parse v = None"
  shows "hd (Sort vs) \<in> set vs \<and> (\<forall>v \<in> set vs. \<not> str_less v (hd (Sort vs)))"
  using assms
proof (induction vs)
  case Nil
  then show ?case by simp
next
  case (Cons a vs)
  have S: "Sort (a # vs) = insert_version a (Sort vs)" by (simp add: Sort_def)
  show ?case
  proof (cases "vs = []")
    case True
    then show ?thesis by (simp add: Sort_def str_less_irrefl)
  next
    case False
    with Cons have IH: "hd (Sort vs) \<in> set vs" "\<forall>v \<in> set vs. \<not> str_less v (hd (Sort vs))"
      by auto
    from False have ne: "Sort vs \<noteq> []" using set_Sort [of vs] by auto
    from IH(1) Cons.prems have ph: "parse (hd (Sort vs)) = None" and pa: "parse a = None"
      by auto
    show ?thesis
    proof (cases "str_less (hd (Sort vs)) a")
      case True
      then have h: "hd (Sort (a # vs)) = hd (Sort vs)"
        by (simp add: S hd_insert_version ne ByVersion_Less_invalid ph pa)
      from True have "\<not> str_less a (hd (Sort vs))"
        using str_less_trans str_less_irrefl by blast
      with IH h show ?thesis by auto
    next
      case False
      then have h: "hd (Sort (a # vs)) = a"
        by (simp add: S hd_insert_version ne ByVersion_Less_invalid ph pa)
      have "\<not> str_less v a" if "v \<in> set vs" for v
      proof
        assume va: "str_less v a"
        from IH(2) that have "\<not> str_less v (hd (Sort vs))" by blast
        then have "hd (Sort vs) = v \<or> str_less (hd (Sort vs)) v"
          using str_less_total [of "hd (Sort vs)" v] by blast
        with va False show False using str_less_trans by blast
      qed
      with h show ?thesis by (auto simp: str_less_irrefl)
    qed
  qed
qed

text \<open>
  \<^verbatim>\<open>getMilestoneId\<close> never returns a nil milestone id without an error, so the branch
  of \<^verbatim>\<open>run\<close> for that case is never taken.
\<close>

lemma getMilestoneId_nil_has_error:
  "fst (getMilestoneId client g st) \<noteq> Return (None, None)"
  by (auto simp: getMilestoneId_def split: prod.splits option.splits outcome.splits list.splits)

text \<open>
  Whenever the listing succeeds and no listed milestone is an open version milestone,
  the run returns the wrapped error after the listing, its only call.
\<close>

lemma runWith_no_open_milestone:
  assumes "fst (ListMilestones client owner repo (world st)) = (ms, None)"
      and "collectMilestones ms [] = Return []"
  shows "fst (runWith client owner repo prId st)
     = Return (Some (Errorf ''getting milestone id: %s''
         [ArgErr (Errorf ''no open version milestones were found'' [])]))
    \<and> calls (snd (runWith client owner repo prId st))
        = calls st @ [ListMilestonesCall owner repo]"
  using assms
  by (simp add: runWith_def getMilestoneId_def callListMilestones_def)

text \<open>
  C1, at the claim's own example. The tracker lists the open milestones v1.2.0 (number 1),
  v1.10.0 (number 2) and v2.0.0 (number 3). The keys of the map are the titles without
  their \<^verbatim>\<open>v\<close>, which no longer are versions for \<^verbatim>\<open>semver\<close>; the sort falls back to
  the byte order of the strings, in which \<^verbatim>\<open>1.10.0\<close> comes before \<^verbatim>\<open>1.2.0\<close>.
  \<^verbatim>\<open>getMilestoneId\<close> returns 2, the number of v1.10.0, not 1.
\<close>

theorem getMilestoneId_sorts_bytewise:
  "getMilestoneId storeClient (issueRef 10)
     (start \<lparr>milestones = [openMilestone ''v1.2.0'' 1, openMilestone ''v1.10.0'' 2,
                            openMilestone ''v2.0.0'' 3],
             issues = []\<rparr>)
   = (Return (Some 2, None),
      \<lparr>world = \<lparr>milestones = [openMilestone ''v1.2.0'' 1, openMilestone ''v1.10.0'' 2,
                               openMilestone ''v2.0.0'' 3],
                issues = []\<rparr>,
       calls = [ListMilestonesCall ''o'' ''r''],
       logs = [(''[DEBUG] lowest open version milestone: %s'', [ArgStr ''1.10.0''])]\<rparr>)"
  by (simp add: library_defs program_defs scenario_defs)

text \<open>
  C2, at a tracker that lists a closed version milestone and an open milestone whose
  title is no version: \<^verbatim>\<open>getMilestoneId\<close> returns the error that no open version
  milestone was found, \<^verbatim>\<open>run\<close> wraps and returns it (the branch for a nil milestone id
  without an error is never reached), and \<^verbatim>\<open>main\<close> exits with status 1, not 0. The only
  call made is the listing.
\<close>

theorem no_open_milestone_exits_1:
  "fst (getMilestoneId storeClient (issueRef 10)
     (start \<lparr>milestones = [\<lparr>Title = Some ''v1.0.0'', Number = Some 1,
                              Milestone.State = Some ''closed''\<rparr>,
                            openMilestone ''backlog'' 2],
             issues = [(10, closedIssue None)]\<rparr>))
   = Return (None, Some (Errorf ''no open version milestones were found'' []))
   \<and> main storeClient (mkEnv ''o/r'' ''10'')
      \<lparr>milestones = [\<lparr>Title = Some ''v1.0.0'', Number = Some 1,
                       Milestone.State = Some ''closed''\<rparr>,
                     openMilestone ''backlog'' 2],
       issues = [(10, closedIssue None)]\<rparr>
   = (1, \<lparr>world = \<lparr>milestones = [\<lparr>Title = Some ''v1.0.0'', Number = Some 1,
                                    Milestone.State = Some ''closed''\<rparr>,
                                  openMilestone ''backlog'' 2],
                    issues = [(10, closedIssue None)]\<rparr>,
          calls = [ListMilestonesCall ''o'' ''r''],
          logs = [(''%v'', [ArgErr (Errorf ''getting milestone id: %s''
                     [ArgErr (Errorf ''no open version milestones were found'' [])])])]\<rparr>)"
  by (simp add: library_defs program_defs scenario_defs)

subsection \<open>The extractor\<close>

text \<open>
  \<^verbatim>\<open>getLinkedIssue\<close> never returns an error, and panics when \<^verbatim>\<open>Get\<close> fails with a nil
  issue.
\<close>

lemma getLinkedIssue_no_error:
  "fst (getLinkedIssue client g st) = Return (r, e) \<Longrightarrow> e = None"
  by (auto simp: getLinkedIssue_def split: prod.splits option.splits outcome.splits)

lemma getLinkedIssue_Get_error_panics:
  assumes "fst (Get client (Owner g) (Repo g) (Id g) (world st)) = (None, Some err)"
  shows "fst (getLinkedIssue client g st) = Panic NilPointerDereference"
  using assms
  by (auto simp: getLinkedIssue_def callGet_def split: prod.splits option.splits)

text \<open>The scan panics at a keyword in the last piece when no piece before it is one.\<close>

lemma scanBody_last_keyword_panics:
  assumes "MatchString keywords_re k" and "\<forall>x \<in> set xs. \<not> MatchString keywords_re x"
  shows "scanBody (xs @ [k]) = Panic IndexOutOfRange"
  using assms by (induction xs) auto

text \<open>
  C3, at a body that ends in a keyword: \<^verbatim>\<open>getLinkedIssue\<close> reads the piece after the
  last one and panics with an index out of range; it does not return None. In a whole
  run the process then ends with status 2, after the pull request was updated.
\<close>

theorem getLinkedIssue_trailing_keyword_panics:
  "fst (getLinkedIssue storeClient (issueRef 10)
     (start \<lparr>milestones = [], issues = [(10, closedIssue (Some ''this closes''))]\<rparr>))
   = Panic IndexOutOfRange
   \<and> fst (main storeClient (mkEnv ''o/r'' ''10'')
      \<lparr>milestones = [openMilestone ''v0.9.0'' 3],
       issues = [(10, closedIssue (Some ''this closes''))]\<rparr>) = 2"
  by (simp add: library_defs program_defs scenario_defs)

text \<open>
  C7, at a body whose reference is followed by a full stop. The piece \<^verbatim>\<open>#42.\<close> begins
  with \<^verbatim>\<open>#\<close> and digits, so the issue pattern matches; \<^verbatim>\<open>strconv.Atoi\<close> is given
  \<^verbatim>\<open>42.\<close>, fails, and its error is dropped: \<^verbatim>\<open>getLinkedIssue\<close> returns 0, not 42.
  The claim's own example, where a space follows the digits, gives 42.
\<close>

theorem getLinkedIssue_trailing_bytes_give_0:
  "fst (getLinkedIssue storeClient (issueRef 10)
     (start \<lparr>milestones = [], issues = [(10, closedIssue (Some ''Fixes #42.''))]\<rparr>))
   = Return (Some 0, None)
   \<and> fst (getLinkedIssue storeClient (issueRef 10)
     (start \<lparr>milestones = [],
             issues = [(10, closedIssue (Some ''Fixes #42 and related work''))]\<rparr>))
   = Return (Some 42, None)"
  by (simp add: library_defs program_defs scenario_defs)

text \<open>
  C5, at a tracker that answers the first \<^verbatim>\<open>Get\<close> and fails the second. The first is
  the one of \<^verbatim>\<open>updateMilestone\<close>, the second the one of \<^verbatim>\<open>getLinkedIssue\<close>, which
  drops the error and reads the body through the nil issue: \<^verbatim>\<open>run\<close> panics. The error
  is neither wrapped nor returned nor logged, and the process ends with status 2.
\<close>

theorem getLinkedIssue_drops_Get_error:
  "main flakyClient (mkEnv ''o/r'' ''10'')
      (1, \<lparr>milestones = [openMilestone ''v0.9.0'' 3],
           issues = [(10, closedIssue (Some ''Closes #7'')), (7, closedIssue None)]\<rparr>)
   = (2, \<lparr>world = (0, \<lparr>milestones = [openMilestone ''v0.9.0'' 3],
                        issues = [(10, milestoned (openMilestone ''v0.9.0'' 3)
                                         (closedIssue (Some ''Closes #7''))),
                                  (7, closedIssue None)]\<rparr>),
          calls = [ListMilestonesCall ''o'' ''r'', GetCall ''o'' ''r'' 10,
                   EditCall ''o'' ''r'' 10 3, GetCall ''o'' ''r'' 10],
          logs = [(''[DEBUG] lowest open version milestone: %s'', [ArgStr ''0.9.0''])]\<rparr>)"
  by (simp add: library_defs program_defs scenario_defs)

subsection \<open>The applier\<close>

text \<open>
  What \<^verbatim>\<open>updateMilestone\<close> does when it does not edit: an error of \<^verbatim>\<open>Get\<close> is wrapped
  and returned; an issue that has a milestone is logged and nil is returned; an issue
  without milestone that is not closed makes the log line panic.
\<close>

lemma updateMilestone_wraps_Get_error:
  assumes "fst (Get client (Owner g) (Repo g) (Id g) (world st)) = (i, Some err)"
  shows "fst (updateMilestone client g milestoneId st)
     = Return (Some (Errorf ''getting issue #%d: %+v'' [ArgInt (Id g), ArgErr err]))"
  using assms
  by (auto simp: updateMilestone_def callGet_def split: prod.splits option.splits)

lemma updateMilestone_milestoned_returns:
  assumes "fst (Get client (Owner g) (Repo g) (Id g) (world st)) = (Some issue, None)"
      and "Milestone issue = Some m" and "Title m = Some title"
  shows "fst (updateMilestone client g milestoneId st) = Return None"
  using assms
  by (auto simp: updateMilestone_def callGet_def needsMilestone_def
      split: prod.splits option.splits)

lemma updateMilestone_not_closed_panics:
  assumes "fst (Get client (Owner g) (Repo g) (Id g) (world st)) = (Some issue, None)"
      and "Milestone issue = None" and "Issue.State issue = Some s"
      and "\<not> EqualFold s ''closed''"
  shows "fst (updateMilestone client g milestoneId st) = Panic NilPointerDereference"
  using assms
  by (auto simp: updateMilestone_def callGet_def needsMilestone_def
      split: prod.splits option.splits)

text \<open>
  C8. Whenever the tracker's answer to \<^verbatim>\<open>Get\<close> is an issue that has a milestone
  (whatever its state), or an issue without milestone whose state is not closed,
  \<^verbatim>\<open>updateMilestone\<close> makes no \<^verbatim>\<open>Edit\<close> call: the only call it makes is the \<^verbatim>\<open>Get\<close>,
  and the tracker is left as the \<^verbatim>\<open>Get\<close> left it. This holds for every client, whether
  the function then returns or panics.
\<close>

theorem updateMilestone_no_edit:
  assumes "fst (fst (Get client (Owner g) (Repo g) (Id g) (world st))) = Some issue"
      and "Milestone issue \<noteq> None
           \<or> \<not> (\<exists>s. Issue.State issue = Some s \<and> EqualFold s ''closed'')"
  shows "calls (snd (updateMilestone client g milestoneId st))
           = calls st @ [GetCall (Owner g) (Repo g) (Id g)]
       \<and> world (snd (updateMilestone client g milestoneId st))
           = snd (Get client (Owner g) (Repo g) (Id g) (world st))"
proof -
  obtain r w where G: "Get client (Owner g) (Repo g) (Id g) (world st) = (r, w)"
    by (cases "Get client (Owner g) (Repo g) (Id g) (world st)")
  obtain i e where R: "r = (i, e)" by (cases r)
  from assms(1) G R have I: "i = Some issue" by simp
  show ?thesis
  proof (cases e)
    case (Some err)
    with G R I show ?thesis
      by (simp add: updateMilestone_def callGet_def)
  next
    case None
    from assms(2) have
      "needsMilestone issue = Return False \<or> needsMilestone issue = Panic NilPointerDereference"
      by (auto simp: needsMilestone_def split: option.splits)
    with None G R I show ?thesis
      by (auto simp: updateMilestone_def callGet_def logPrintf_def split: option.splits)
  qed
qed

theorem updateMilestone_no_edit_witness:
  "Milestone (milestoned (openMilestone ''v0.8.0'' 2) (closedIssue None)) \<noteq> None
   \<and> calls (snd (updateMilestone storeClient (issueRef 7) 3
        (start \<lparr>milestones = [openMilestone ''v0.9.0'' 3],
                issues = [(7, milestoned (openMilestone ''v0.8.0'' 2) (closedIssue None))]\<rparr>)))
     = [GetCall ''o'' ''r'' 7]
   \<and> \<not> EqualFold ''open'' ''closed''
   \<and> calls (snd (updateMilestone storeClient (issueRef 7) 3
        (start \<lparr>milestones = [openMilestone ''v0.9.0'' 3], issues = [(7, openIssue None)]\<rparr>)))
     = [GetCall ''o'' ''r'' 7]"
  using
    updateMilestone_no_edit [where client = storeClient and g = "issueRef 7"
      and st = "start \<lparr>milestones = [openMilestone ''v0.9.0'' 3],
                issues = [(7, milestoned (openMilestone ''v0.8.0'' 2) (closedIssue None))]\<rparr>"
      and issue = "milestoned (openMilestone ''v0.8.0'' 2) (closedIssue None)"
      and milestoneId = 3]
    updateMilestone_no_edit [where client = storeClient and g = "issueRef 7"
      and st = "start \<lparr>milestones = [openMilestone ''v0.9.0'' 3], issues = [(7, openIssue None)]\<rparr>"
      and issue = "openIssue None" and milestoneId = 3]
  by (simp add: scenario_defs library_defs)

text \<open>
  C4, at an issue that is open and has no milestone: \<^verbatim>\<open>updateMilestone\<close> makes no
  \<^verbatim>\<open>Edit\<close> call, but it does not log and return either. The log line reads the title of
  the issue's milestone, which is nil, and the function panics.
\<close>

theorem updateMilestone_open_unmilestoned_panics:
  "updateMilestone storeClient (issueRef 7) 3
     (start \<lparr>milestones = [openMilestone ''v0.9.0'' 3], issues = [(7, openIssue None)]\<rparr>)
   = (Panic NilPointerDereference,
      \<lparr>world = \<lparr>milestones = [openMilestone ''v0.9.0'' 3], issues = [(7, openIssue None)]\<rparr>,
       calls = [GetCall ''o'' ''r'' 7], logs = []\<rparr>)"
  by (simp add: library_defs program_defs scenario_defs)

subsection \<open>End to end\<close>

text \<open>
  C9. Pull request 10 is closed, has no milestone and the body \<^verbatim>\<open>Closes #7\<close>; issue 7
  is closed and has no milestone; the open milestones are v0.9.0 (number 3) and v1.0.0
  (number 4). The run lists the milestones once, sets the milestone of number 3 on pull
  request 10 and then on issue 7, nothing else, and the process ends with status 0.
\<close>

theorem run_end_to_end:
  "main storeClient (mkEnv ''o/r'' ''10'')
      \<lparr>milestones = [openMilestone ''v0.9.0'' 3, openMilestone ''v1.0.0'' 4],
       issues = [(10, closedIssue (Some ''Closes #7'')), (7, closedIssue None)]\<rparr>
   = (0, \<lparr>world =
            \<lparr>milestones = [openMilestone ''v0.9.0'' 3, openMilestone ''v1.0.0'' 4],
             issues = [(10, milestoned (openMilestone ''v0.9.0'' 3)
                              (closedIssue (Some ''Closes #7''))),
                       (7, milestoned (openMilestone ''v0.9.0'' 3) (closedIssue None))]\<rparr>,
          calls = [ListMilestonesCall ''o'' ''r'', GetCall ''o'' ''r'' 10,
                   EditCall ''o'' ''r'' 10 3, GetCall ''o'' ''r'' 10, GetCall ''o'' ''r'' 7,
                   EditCall ''o'' ''r'' 7 3],
          logs = [(''[DEBUG] lowest open version milestone: %s'', [ArgStr ''0.9.0''])]\<rparr>)"
  by (simp add: library_defs program_defs scenario_defs)

end
